theory Spec2Isabelle
  imports Complex_Main "HOL-Library.AList" "HOL-Library.Multiset"
begin

section \<open>JavaScript numbers\<close>

text \<open>
  The program is JavaScript: every number is an IEEE-754 double. A double is modelled by
  its exact value: \<open>NaN\<close>, the two infinities, or a finite rational. The two zeros are
  identified (no operation used by the program tells them apart: \<open>String\<close>,
  \<open>toFixed\<close>, \<open>isNaN\<close>, \<open>isFinite\<close> and the comparisons agree on them, and the
  program never divides by a cell value). Every arithmetic operation computes the exact
  result and rounds it with \<open>roundDouble\<close> (round to nearest, ties to even, overflow to
  infinity, gradual underflow), as IEEE-754 prescribes.
\<close>

datatype jsnum = NaN | PosInf | NegInf | Fin rat

definition pow2 :: "int \<Rightarrow> rat" where
  "pow2 e = (if 0 \<le> e then 2 ^ nat e else 1 / 2 ^ nat (- e))"

definition pow10 :: "int \<Rightarrow> rat" where
  "pow10 e = (if 0 \<le> e then 10 ^ nat e else 1 / 10 ^ nat (- e))"

function digitCount :: "int \<Rightarrow> int \<Rightarrow> int" where
  \<comment> \<open>the number of digits of \<open>x\<close> in base \<open>b\<close> (0 for \<open>x \<le> 0\<close>)\<close>
  "digitCount b x = (if 1 < b \<and> 0 < x then digitCount b (x div b) + 1 else 0)"
  by pat_completeness auto
termination
  by (relation "measure (\<lambda>(b, x). nat x)") (auto simp: pos_imp_zdiv_nonneg_iff intro: int_div_less_self)

declare digitCount.simps [simp del]

definition floorLog :: "int \<Rightarrow> rat \<Rightarrow> int" where
  \<comment> \<open>for \<open>0 < q\<close> and \<open>1 < b\<close>: the integer \<open>e\<close> with \<open>b ^ e \<le> q < b ^ (e + 1)\<close>\<close>
  "floorLog b q =
     (if 1 \<le> q then digitCount b \<lfloor>q\<rfloor> - 1
      else let r = 1 / q; f = \<lfloor>r\<rfloor>
           in - digitCount b (if of_int f = r then f - 1 else f))"

definition roundHalfEven :: "rat \<Rightarrow> int" where
  "roundHalfEven x =
     (let f = \<lfloor>x\<rfloor>; d = x - of_int f
      in if d < 1 / 2 then f else if 1 / 2 < d then f + 1 else if even f then f else f + 1)"

definition doubleExponent :: "rat \<Rightarrow> int" where
  \<comment> \<open>the binary exponent of the doubles around \<open>0 < a\<close>, at least \<open>-1022\<close>\<close>
  "doubleExponent a = max (floorLog 2 a) (- 1022)"

definition doubleSpacing :: "rat \<Rightarrow> rat" where
  \<comment> \<open>the distance between neighbouring doubles around \<open>0 < a\<close> (53 significant bits)\<close>
  "doubleSpacing a = pow2 (doubleExponent a - 52)"

definition roundMagnitude :: "rat \<Rightarrow> rat" where
  \<comment> \<open>for \<open>0 < a\<close>: the multiple of the spacing nearest to \<open>a\<close>, an even multiple on a
      tie\<close>
  "roundMagnitude a = of_int (roundHalfEven (a / doubleSpacing a)) * doubleSpacing a"

definition roundDouble :: "rat \<Rightarrow> jsnum" where
  "roundDouble q =
     (if q = 0 then Fin 0
      else let r = roundMagnitude \<bar>q\<bar>
           in if 2 ^ 1024 \<le> r then (if q < 0 then NegInf else PosInf)
              else Fin (if q < 0 then - r else r))"

fun jsAdd :: "jsnum \<Rightarrow> jsnum \<Rightarrow> jsnum" where
  "jsAdd NaN _ = NaN"
| "jsAdd _ NaN = NaN"
| "jsAdd PosInf NegInf = NaN"
| "jsAdd NegInf PosInf = NaN"
| "jsAdd PosInf _ = PosInf"
| "jsAdd _ PosInf = PosInf"
| "jsAdd NegInf _ = NegInf"
| "jsAdd _ NegInf = NegInf"
| "jsAdd (Fin a) (Fin b) = roundDouble (a + b)"

fun jsNeg :: "jsnum \<Rightarrow> jsnum" where
  "jsNeg NaN = NaN"
| "jsNeg PosInf = NegInf"
| "jsNeg NegInf = PosInf"
| "jsNeg (Fin a) = Fin (- a)"

definition jsSub :: "jsnum \<Rightarrow> jsnum \<Rightarrow> jsnum" where
  "jsSub x y = jsAdd x (jsNeg y)"

fun jsLess :: "jsnum \<Rightarrow> jsnum \<Rightarrow> bool" where
  \<comment> \<open>the operator \<open><\<close>: false as soon as one side is \<open>NaN\<close>\<close>
  "jsLess NaN _ = False"
| "jsLess _ NaN = False"
| "jsLess PosInf _ = False"
| "jsLess _ PosInf = True"
| "jsLess _ NegInf = False"
| "jsLess NegInf _ = True"
| "jsLess (Fin a) (Fin b) = (a < b)"


fun jsMul :: "jsnum \<Rightarrow> jsnum \<Rightarrow> jsnum" where
  "jsMul (Fin a) (Fin b) = roundDouble (a * b)"
| "jsMul NaN _ = NaN"
| "jsMul _ NaN = NaN"
| "jsMul x y =
     (if x = Fin 0 \<or> y = Fin 0 then NaN
      else if jsLess x (Fin 0) = jsLess y (Fin 0) then PosInf else NegInf)"

fun jsDiv :: "jsnum \<Rightarrow> jsnum \<Rightarrow> jsnum" where
  \<comment> \<open>the program divides by a count or by 2 only; a zero divisor is taken as \<open>+0\<close>\<close>
  "jsDiv NaN _ = NaN"
| "jsDiv _ NaN = NaN"
| "jsDiv (Fin a) (Fin b) =
     (if b = 0 then (if a = 0 then NaN else if 0 < a then PosInf else NegInf)
      else roundDouble (a / b))"
| "jsDiv (Fin a) _ = Fin 0"
| "jsDiv x (Fin b) = (if jsLess x (Fin 0) = (b < 0) then PosInf else NegInf)"
| "jsDiv _ _ = NaN"

definition numIsNaN :: "jsnum \<Rightarrow> bool" where
  "numIsNaN x = (x = NaN)"

definition numIsFinite :: "jsnum \<Rightarrow> bool" where
  "numIsFinite x = (case x of Fin _ \<Rightarrow> True | _ \<Rightarrow> False)"

section \<open>Strings\<close>

text \<open>
  A JavaScript string is a sequence of UTF-16 code units; it is modelled as a \<open>string\<close>
  whose characters stand for the code units below 256. The conversions below follow
  ECMAScript: \<open>stringToNumber\<close> is \<open>Number(s)\<close> (the whole string, trimmed, must be a
  numeric literal; the empty string is 0), \<open>parseFloat\<close> reads the longest prefix that is
  a decimal literal, \<open>numberToString\<close> is \<open>String(x)\<close> for a number (the shortest digits
  that read back as the same double), and \<open>toFixed\<close> is \<open>Number.prototype.toFixed\<close>.
\<close>

definition isDigit :: "char \<Rightarrow> bool" where
  "isDigit c = (c \<in> set ''0123456789'')"

definition isStrWhiteSpaceChar :: "char \<Rightarrow> bool" where
  \<comment> \<open>TAB, LF, VT, FF, CR, SP, NBSP\<close>
  "isStrWhiteSpaceChar c = ((of_char c :: nat) \<in> {9, 10, 11, 12, 13, 32, 160})"

definition radixDigit :: "char \<Rightarrow> nat option" where
  "radixDigit c =
     (let n = (of_char c :: nat)
      in if 48 \<le> n \<and> n \<le> 57 then Some (n - 48)
         else if 97 \<le> n \<and> n \<le> 102 then Some (n - 87)
         else if 65 \<le> n \<and> n \<le> 70 then Some (n - 55)
         else None)"

definition isRadixDigit :: "nat \<Rightarrow> char \<Rightarrow> bool" where
  "isRadixDigit b c = (case radixDigit c of None \<Rightarrow> False | Some d \<Rightarrow> d < b)"

definition radixValue :: "nat \<Rightarrow> string \<Rightarrow> nat" where
  "radixValue b ds = foldl (\<lambda>a c. b * a + (case radixDigit c of None \<Rightarrow> 0 | Some d \<Rightarrow> d)) 0 ds"

definition digitsValue :: "string \<Rightarrow> nat" where
  "digitsValue ds = radixValue 10 ds"

definition exponentPart :: "string \<Rightarrow> int \<times> string" where
  \<comment> \<open>an optional \<open>e\<close> or \<open>E\<close>, an optional sign, and at least one digit\<close>
  "exponentPart r =
     (case r of
        [] \<Rightarrow> (0, r)
      | c # t \<Rightarrow>
          if c = CHR ''e'' \<or> c = CHR ''E'' then
            (let neg = (t \<noteq> [] \<and> hd t = CHR ''-'');
                 t' = (if t \<noteq> [] \<and> (hd t = CHR ''+'' \<or> hd t = CHR ''-'') then tl t else t);
                 ds = takeWhile isDigit t'
             in if ds = [] then (0, r)
                else (if neg then - int (digitsValue ds) else int (digitsValue ds),
                      dropWhile isDigit t'))
          else (0, r))"

definition unsignedDecimalPrefix :: "bool \<Rightarrow> string \<Rightarrow> (jsnum \<times> string) option" where
  \<comment> \<open>the longest prefix that is a StrUnsignedDecimalLiteral, its value (negated when
      the flag is set) and the rest of the string\<close>
  "unsignedDecimalPrefix neg s =
     (if take 8 s = ''Infinity'' then Some (if neg then NegInf else PosInf, drop 8 s)
      else
        let ip = takeWhile isDigit s;
            r1 = dropWhile isDigit s;
            hasDot = (r1 \<noteq> [] \<and> hd r1 = CHR ''.'');
            fp = (if hasDot then takeWhile isDigit (tl r1) else []);
            r2 = (if hasDot then dropWhile isDigit (tl r1) else r1)
        in if ip = [] \<and> fp = [] then None
           else
             let (ex, r3) = exponentPart r2;
                 q = of_nat (digitsValue (ip @ fp)) * pow10 (ex - int (length fp))
             in Some (roundDouble (if neg then - q else q), r3))"

definition strDecimalPrefix :: "string \<Rightarrow> (jsnum \<times> string) option" where
  "strDecimalPrefix s =
     (case s of
        [] \<Rightarrow> None
      | c # r \<Rightarrow>
          if c = CHR ''+'' then unsignedDecimalPrefix False r
          else if c = CHR ''-'' then unsignedDecimalPrefix True r
          else unsignedDecimalPrefix False s)"

definition nonDecimalIntegerLiteral :: "string \<Rightarrow> nat option" where
  \<comment> \<open>\<open>0x\<close>, \<open>0o\<close>, \<open>0b\<close> literals (either case of the letter), unsigned\<close>
  "nonDecimalIntegerLiteral s =
     (case s of
        z # x # ds \<Rightarrow>
          if z = CHR ''0'' \<and> ds \<noteq> [] then
            (if (x = CHR ''x'' \<or> x = CHR ''X'') \<and> list_all (isRadixDigit 16) ds
               then Some (radixValue 16 ds)
             else if (x = CHR ''o'' \<or> x = CHR ''O'') \<and> list_all (isRadixDigit 8) ds
               then Some (radixValue 8 ds)
             else if (x = CHR ''b'' \<or> x = CHR ''B'') \<and> list_all (isRadixDigit 2) ds
               then Some (radixValue 2 ds)
             else None)
          else None
      | _ \<Rightarrow> None)"

definition trimStart :: "string \<Rightarrow> string" where
  "trimStart s = dropWhile isStrWhiteSpaceChar s"

definition trim :: "string \<Rightarrow> string" where
  "trim s = rev (dropWhile isStrWhiteSpaceChar (rev (trimStart s)))"

definition stringToNumber :: "string \<Rightarrow> jsnum" where
  "stringToNumber s =
     (let t = trim s
      in if t = [] then Fin 0
         else case nonDecimalIntegerLiteral t of
                Some n \<Rightarrow> roundDouble (of_nat n)
              | None \<Rightarrow>
                  (case strDecimalPrefix t of
                     Some (x, rest) \<Rightarrow> if rest = [] then x else NaN
                   | None \<Rightarrow> NaN))"

definition parseFloat :: "string \<Rightarrow> jsnum" where
  "parseFloat s =
     (case strDecimalPrefix (trimStart s) of Some (x, rest) \<Rightarrow> x | None \<Rightarrow> NaN)"

definition digitChar :: "nat \<Rightarrow> char" where
  "digitChar d = ''0123456789'' ! d"

function decString :: "nat \<Rightarrow> string" where
  \<comment> \<open>the decimal digits of a natural number\<close>
  "decString n = (if n < 10 then [digitChar n] else decString (n div 10) @ [digitChar (n mod 10)])"
  by pat_completeness auto
termination
  by (relation "measure id") auto

declare decString.simps [simp del]

definition digitCandidates :: "rat \<Rightarrow> int \<Rightarrow> nat \<Rightarrow> int list" where
  \<comment> \<open>the \<open>k\<close>-digit integers \<open>s\<close> nearest to \<open>q\<close> with \<open>s * 10 ^ (n - k)\<close> reading back
      as the double \<open>q\<close>; the nearer one first, an even one on a tie\<close>
  "digitCandidates q n k =
     (let p = pow10 (n - int k);
          lo = \<lfloor>q / p\<rfloor>;
          hi = lo + 1;
          ok = (\<lambda>s. 10 ^ (k - 1) \<le> s \<and> s < 10 ^ k \<and> roundDouble (of_int s * p) = Fin q);
          dlo = q - of_int lo * p;
          dhi = of_int hi * p - q
      in if ok lo \<and> ok hi then
           [if dlo < dhi then lo else if dhi < dlo then hi else if even lo then lo else hi]
         else if ok lo then [lo]
         else if ok hi then [hi]
         else [])"

fun findDigits :: "rat \<Rightarrow> int \<Rightarrow> nat \<Rightarrow> nat \<Rightarrow> int option" where
  "findDigits q n k 0 = None"
| "findDigits q n k (Suc fuel) =
     (case digitCandidates q n k of
        s # _ \<Rightarrow> Some s
      | [] \<Rightarrow> findDigits q n (Suc k) fuel)"

definition shortestDigits :: "rat \<Rightarrow> nat \<times> int" where
  \<comment> \<open>for a double \<open>0 < q\<close>: \<open>(s, n)\<close> with the fewest digits \<open>s\<close> such that
      \<open>s * 10 ^ (n - k)\<close> reads back as \<open>q\<close>, \<open>k\<close> the number of digits of \<open>s\<close>;
      17 digits always suffice\<close>
  "shortestDigits q =
     (let n0 = floorLog 10 q + 1
      in if roundDouble (pow10 n0) = Fin q then (1, n0 + 1)
         else case findDigits q n0 1 17 of
                Some s \<Rightarrow> (nat s, n0)
              | None \<Rightarrow> (nat \<lfloor>q / pow10 (n0 - 17)\<rfloor>, n0))"

definition positiveToString :: "rat \<Rightarrow> string" where
  "positiveToString q =
     (let (s, n) = shortestDigits q;
          ds = decString s;
          k = int (length ds)
      in if k \<le> n \<and> n \<le> 21 then ds @ replicate (nat (n - k)) CHR ''0''
         else if 0 < n \<and> n \<le> 21 then take (nat n) ds @ ''.'' @ drop (nat n) ds
         else if - 6 < n \<and> n \<le> 0 then ''0.'' @ replicate (nat (- n)) CHR ''0'' @ ds
         else
           let e = n - 1;
               es = (if e < 0 then CHR ''-'' else CHR ''+'') # decString (nat \<bar>e\<bar>)
           in if k = 1 then ds @ ''e'' @ es else hd ds # ''.'' @ tl ds @ ''e'' @ es)"

definition numberToString :: "jsnum \<Rightarrow> string" where
  "numberToString x =
     (case x of
        NaN \<Rightarrow> ''NaN''
      | PosInf \<Rightarrow> ''Infinity''
      | NegInf \<Rightarrow> ''-Infinity''
      | Fin q \<Rightarrow>
          if q = 0 then ''0''
          else if q < 0 then CHR ''-'' # positiveToString (- q)
          else positiveToString q)"

definition toFixed :: "nat \<Rightarrow> jsnum \<Rightarrow> string" where
  \<comment> \<open>\<open>x.toFixed(f)\<close>: the integer nearest to \<open>x * 10 ^ f\<close> (the larger one on a tie), printed
      with \<open>f\<close> digits after the point\<close>
  "toFixed f x =
     (case x of
        Fin q \<Rightarrow>
          if 10 ^ 21 \<le> \<bar>q\<bar> then numberToString x
          else
            let m = decString (nat \<lfloor>\<bar>q\<bar> * 10 ^ f + 1 / 2\<rfloor>);
                z = replicate (f + 1 - length m) CHR ''0'' @ m;
                m' = (if f \<noteq> 0 then take (length z - f) z @ ''.'' @ drop (length z - f) z else m)
            in if q < 0 then CHR ''-'' # m' else m'
      | _ \<Rightarrow> numberToString x)"

section \<open>Cells, rows and objects\<close>

text \<open>
  A cell is \<open>null\<close>, \<open>undefined\<close> (a missing key), a number or a string, as in the data
  model of the specification. A row is an object read only through \<open>row[col]\<close>, which
  yields \<open>undefined\<close> for a key the row does not have: it is modelled as a function
  from column names to cells.
\<close>

datatype cell = Null | Undefined | Num jsnum | Str string

type_synonym row = "string \<Rightarrow> cell"

fun toNumber :: "cell \<Rightarrow> jsnum" where
  \<comment> \<open>\<open>Number(v)\<close>, the coercion applied by \<open>isNaN\<close> and \<open>isFinite\<close>\<close>
  "toNumber Null = Fin 0"
| "toNumber Undefined = NaN"
| "toNumber (Num x) = x"
| "toNumber (Str s) = stringToNumber s"

definition isNaN :: "cell \<Rightarrow> bool" where
  "isNaN v = numIsNaN (toNumber v)"

definition isFinite :: "cell \<Rightarrow> bool" where
  "isFinite v = numIsFinite (toNumber v)"

fun toString :: "cell \<Rightarrow> string" where
  \<comment> \<open>\<open>String(v)\<close>\<close>
  "toString Null = ''null''"
| "toString Undefined = ''undefined''"
| "toString (Num x) = numberToString x"
| "toString (Str s) = s"

fun isString :: "cell \<Rightarrow> bool" where
  \<comment> \<open>\<open>typeof v === "string"\<close>\<close>
  "isString (Str s) = True"
| "isString _ = False"

fun coerceNumber :: "cell \<Rightarrow> jsnum" where
  \<comment> \<open>\<open>typeof v === "number" ? v : parseFloat(v)\<close>; \<open>parseFloat\<close> reads \<open>String(v)\<close>\<close>
  "coerceNumber (Num x) = x"
| "coerceNumber v = parseFloat (toString v)"

text \<open>
  An object with string keys (\<open>freq\<close>, \<open>numericColumns\<close>, \<open>categoricalColumns\<close>) is an
  association list in the order in which the keys were created; assigning to an existing
  key keeps its place. \<open>Object.keys\<close> and \<open>Object.entries\<close> enumerate the keys that are
  array indices (canonical decimal strings below \<open>2^32 - 1\<close>) first, in ascending numeric
  order, and then the other keys in creation order. Only own properties are modelled.
\<close>

type_synonym 'v jsobj = "(string \<times> 'v) list"

definition objGet :: "'v jsobj \<Rightarrow> string \<Rightarrow> 'v option" where
  "objGet obj k = map_of obj k"

definition objSet :: "'v jsobj \<Rightarrow> string \<Rightarrow> 'v \<Rightarrow> 'v jsobj" where
  "objSet obj k v = AList.update k v obj"

definition isArrayIndex :: "string \<Rightarrow> bool" where
  "isArrayIndex k =
     (k \<noteq> [] \<and> list_all isDigit k \<and> (hd k \<noteq> CHR ''0'' \<or> k = ''0'') \<and>
      digitsValue k < 4294967295)"

definition ownEntries :: "'v jsobj \<Rightarrow> (string \<times> 'v) list" where
  "ownEntries obj =
     sort_key (\<lambda>e. digitsValue (fst e)) (filter (\<lambda>e. isArrayIndex (fst e)) obj) @
     filter (\<lambda>e. \<not> isArrayIndex (fst e)) obj"

definition ownKeys :: "'v jsobj \<Rightarrow> string list" where
  "ownKeys obj = map fst (ownEntries obj)"

text \<open>
  \<open>Array.prototype.sort\<close> with a comparison function is stable. \<open>sortBy lt\<close> is
  insertion sort, where \<open>lt a b\<close> says that the comparison function returns a negative
  number on \<open>(a, b)\<close>: each element goes in front of the first element already placed
  that it must precede.
\<close>

primrec insertBy :: "('a \<Rightarrow> 'a \<Rightarrow> bool) \<Rightarrow> 'a \<Rightarrow> 'a list \<Rightarrow> 'a list" where
  "insertBy lt x [] = [x]"
| "insertBy lt x (y # ys) = (if lt x y then x # y # ys else y # insertBy lt x ys)"

definition sortBy :: "('a \<Rightarrow> 'a \<Rightarrow> bool) \<Rightarrow> 'a list \<Rightarrow> 'a list" where
  "sortBy lt xs = foldl (\<lambda>acc x. insertBy lt x acc) [] xs"

definition slice0 :: "int \<Rightarrow> 'a list \<Rightarrow> 'a list" where
  \<comment> \<open>\<open>xs.slice(0, n)\<close>: a negative \<open>n\<close> counts from the end\<close>
  "slice0 n xs = (if n < 0 then take (nat (int (length xs) + n)) xs else take (nat n) xs)"

section \<open>analyzeData\<close>

record numeric_profile =
  mean :: string
  median :: string
  min_v :: string
  max_v :: string
  sum_v :: string
  count_v :: nat

record categorical_profile =
  unique :: nat
  mostCommon :: "(string \<times> nat) option"
  distribution :: "nat jsobj"
  total_v :: nat

record analysis =
  totalRows :: nat
  totalColumns :: nat
  numeric :: "numeric_profile jsobj"
  categorical :: "categorical_profile jsobj"

definition nonEmpty :: "cell \<Rightarrow> bool" where
  \<comment> \<open>\<open>v !== null && v !== "" && v !== undefined\<close>\<close>
  "nonEmpty v = (v \<noteq> Null \<and> v \<noteq> Str [] \<and> v \<noteq> Undefined)"

definition isNumericValue :: "cell \<Rightarrow> bool" where
  "isNumericValue v =
     ((\<not> isNaN v \<and> v \<noteq> Str [] \<and> \<not> isString v) \<or>
      (isString v \<and> \<not> numIsNaN (parseFloat (toString v)) \<and> isFinite v))"

definition isNumericColumn :: "cell list \<Rightarrow> cell list \<Rightarrow> bool" where
  \<comment> \<open>\<open>numericValues.length > values.length * 0.5 && numericValues.length > 0\<close>; the
      product is exact, an array being shorter than \<open>2^32\<close>\<close>
  "isNumericColumn numericValues values =
     ((of_nat (length values) :: rat) * (1 / 2) < of_nat (length numericValues) \<and>
      0 < length numericValues)"

datatype column_class = NUMERIC | CATEGORICAL

definition classify :: "cell list \<Rightarrow> column_class" where
  \<comment> \<open>the branch \<open>analyzeData\<close> takes for a column with these cells\<close>
  "classify cells =
     (let values = filter nonEmpty cells;
          numericValues = filter isNumericValue values
      in if isNumericColumn numericValues values then NUMERIC else CATEGORICAL)"

definition mathMin :: "jsnum list \<Rightarrow> jsnum" where
  \<comment> \<open>\<open>Math.min(...xs)\<close>\<close>
  "mathMin xs =
     foldl (\<lambda>a b. if a = NaN \<or> b = NaN then NaN else if jsLess b a then b else a) PosInf xs"

definition mathMax :: "jsnum list \<Rightarrow> jsnum" where
  \<comment> \<open>\<open>Math.max(...xs)\<close>\<close>
  "mathMax xs =
     foldl (\<lambda>a b. if a = NaN \<or> b = NaN then NaN else if jsLess a b then b else a) NegInf xs"

definition numSum :: "jsnum list \<Rightarrow> jsnum" where
  \<comment> \<open>\<open>numbers.reduce((a, b) => a + b, 0)\<close>\<close>
  "numSum numbers = foldl jsAdd (Fin 0) numbers"

definition sortNumbers :: "jsnum list \<Rightarrow> jsnum list" where
  \<comment> \<open>\<open>[...numbers].sort((a, b) => a - b)\<close>\<close>
  "sortNumbers numbers = sortBy (\<lambda>a b. jsLess (jsSub a b) (Fin 0)) numbers"

definition numMedian :: "jsnum list \<Rightarrow> jsnum" where
  "numMedian numbers =
     (let sortedNumbers = sortNumbers numbers;
          mid = length sortedNumbers div 2
      in if length sortedNumbers mod 2 = 0
         then jsDiv (jsAdd (sortedNumbers ! (mid - 1)) (sortedNumbers ! mid)) (Fin 2)
         else sortedNumbers ! mid)"

definition numMean :: "jsnum list \<Rightarrow> jsnum" where
  "numMean numbers = jsDiv (numSum numbers) (Fin (of_nat (length numbers)))"

definition numericProfile :: "cell list \<Rightarrow> numeric_profile" where
  "numericProfile numericValues =
     (let numbers = map coerceNumber numericValues
      in \<lparr> mean = toFixed 2 (numMean numbers),
           median = toFixed 2 (numMedian numbers),
           min_v = toFixed 2 (mathMin numbers),
           max_v = toFixed 2 (mathMax numbers),
           sum_v = toFixed 2 (numSum numbers),
           count_v = length numbers \<rparr>)"

definition tally :: "nat jsobj \<Rightarrow> string \<Rightarrow> nat jsobj" where
  \<comment> \<open>\<open>freq[key] = (freq[key] || 0) + 1\<close>\<close>
  "tally freq key = objSet freq key ((case objGet freq key of None \<Rightarrow> 0 | Some c \<Rightarrow> c) + 1)"

definition sortedFreq :: "nat jsobj \<Rightarrow> (string \<times> nat) list" where
  \<comment> \<open>\<open>Object.entries(freq).sort((a, b) => b[1] - a[1])\<close>\<close>
  "sortedFreq freq = sortBy (\<lambda>a b. snd b < snd a) (ownEntries freq)"

definition categoricalProfile :: "cell list \<Rightarrow> categorical_profile" where
  "categoricalProfile values =
     (let freq = foldl (\<lambda>freq v. tally freq (toString v)) [] values
      in \<lparr> unique = length (ownKeys freq),
           mostCommon = (case sortedFreq freq of [] \<Rightarrow> None | e # _ \<Rightarrow> Some e),
           distribution = freq,
           total_v = length values \<rparr>)"

definition analyzeHeader ::
  "row list \<Rightarrow> numeric_profile jsobj \<times> categorical_profile jsobj \<Rightarrow> string \<Rightarrow>
   numeric_profile jsobj \<times> categorical_profile jsobj" where
  \<comment> \<open>the body of \<open>cols.forEach\<close>\<close>
  "analyzeHeader csvData acc header =
     (let values = filter nonEmpty (map (\<lambda>row. row header) csvData);
          numericValues = filter isNumericValue values
      in if isNumericColumn numericValues values
         then (objSet (fst acc) header (numericProfile numericValues), snd acc)
         else (fst acc, objSet (snd acc) header (categoricalProfile values)))"

definition analyzeData :: "row list \<Rightarrow> string list \<Rightarrow> analysis" where
  "analyzeData csvData cols =
     (let acc = foldl (analyzeHeader csvData) ([], []) cols
      in \<lparr> totalRows = length csvData,
           totalColumns = length cols,
           numeric = fst acc,
           categorical = snd acc \<rparr>)"

section \<open>getChartData\<close>



definition percentageOf :: "nat \<Rightarrow> nat \<Rightarrow> string" where
  \<comment> \<open>\<open>((value / totalCount) * 100).toFixed(1)\<close>\<close>
  "percentageOf v totalCount =
     toFixed 1 (jsMul (jsDiv (Fin (of_nat v)) (Fin (of_nat totalCount))) (Fin 100))"



section \<open>getBestChartsForData\<close>

datatype chart_kind = PIE | BAR | LINE | COMPARISON

record chart =
  kind :: chart_kind
  column_of :: "string option"
  columns_of :: "string list option"
  title :: string
  description :: string

fun join :: "string \<Rightarrow> string list \<Rightarrow> string" where
  "join sep [] = []"
| "join sep [x] = x"
| "join sep (x # y # ys) = x @ sep @ join sep (y # ys)"

definition natString :: "nat \<Rightarrow> string" where
  \<comment> \<open>a count inside a template literal\<close>
  "natString n = numberToString (Fin (of_nat n))"

definition pieChart :: "string \<times> categorical_profile \<Rightarrow> chart" where
  "pieChart e =
     \<lparr> kind = PIE, column_of = Some (fst e), columns_of = None,
       title = fst e @ '' Distribution'',
       description = ''Shows the breakdown of '' @ natString (total_v (snd e)) @
         '' records across '' @ natString (unique (snd e)) @ '' categories'' \<rparr>"

definition barChart :: "string \<times> categorical_profile \<Rightarrow> chart" where
  "barChart e =
     \<lparr> kind = BAR, column_of = Some (fst e), columns_of = None,
       title = fst e @ '' Frequency'',
       description = ''Count of occurrences for each '' @ fst e \<rparr>"

definition lineChart :: "string list \<Rightarrow> chart" where
  "lineChart numericCols =
     \<lparr> kind = LINE, column_of = None, columns_of = Some (take 3 numericCols),
       title = ''Numeric Trends: '' @ join '', '' (take 3 numericCols),
       description = ''Shows the progression of numeric values across records'' \<rparr>"

definition comparisonChart :: "string list \<Rightarrow> chart" where
  "comparisonChart numericCols =
     \<lparr> kind = COMPARISON, column_of = None,
       columns_of = Some [numericCols ! 0, numericCols ! 1],
       title = numericCols ! 0 @ '' vs '' @ numericCols ! 1,
       description = ''Comparison of two numeric variables'' \<rparr>"

definition pushPie :: "chart list \<Rightarrow> string \<times> categorical_profile \<Rightarrow> chart list" where
  "pushPie charts e =
     (if 2 \<le> unique (snd e) \<and> unique (snd e) \<le> 15 then charts @ [pieChart e] else charts)"

definition pushBar :: "chart list \<Rightarrow> string \<times> categorical_profile \<Rightarrow> chart list" where
  "pushBar charts e =
     (if 2 \<le> unique (snd e) \<and> unique (snd e) \<le> 20 then charts @ [barChart e] else charts)"

definition getBestChartsForData :: "analysis option \<Rightarrow> chart list" where
  \<comment> \<open>\<open>analysis\<close> is \<open>null\<close> until a file has been analysed\<close>
  "getBestChartsForData a =
     (let categoricalCols = (case a of None \<Rightarrow> [] | Some an \<Rightarrow> ownEntries (categorical an));
          numericCols = (case a of None \<Rightarrow> [] | Some an \<Rightarrow> ownKeys (numeric an));
          charts1 = foldl pushPie [] categoricalCols;
          charts2 = foldl pushBar charts1 categoricalCols;
          charts3 = (if 2 \<le> length numericCols then charts2 @ [lineChart numericCols] else charts2);
          charts4 = (if 2 \<le> length numericCols then charts3 @ [comparisonChart numericCols]
                     else charts3)
      in slice0 6 charts4)"

section \<open>getLineChartData and getComparisonData\<close>

text \<open>
  A point is an object whose values are numbers: the key \<open>index\<close> and one key per
  column. It is modelled as a map; a later assignment to a key replaces the earlier one.
\<close>

type_synonym point = "string \<rightharpoonup> jsnum"

definition indexNumber :: "nat \<Rightarrow> jsnum" where
  \<comment> \<open>\<open>idx + 1\<close>\<close>
  "indexNumber idx = Fin (of_nat (idx + 1))"

definition linePointStep :: "row \<Rightarrow> point \<Rightarrow> string \<Rightarrow> point" where
  \<comment> \<open>the body of \<open>columns.forEach\<close>\<close>
  "linePointStep row point col =
     (let val = row col
      in if \<not> isNaN val \<and> val \<noteq> Null \<and> val \<noteq> Str []
         then point(col \<mapsto> coerceNumber val)
         else point)"

definition getLineChartData :: "row list \<Rightarrow> string list \<Rightarrow> point list" where
  "getLineChartData data columns =
     map (\<lambda>(idx, row). foldl (linePointStep row) [''index'' \<mapsto> indexNumber idx] columns)
       (enumerate 0 (take 50 data))"

definition comparisonPoint :: "string \<Rightarrow> string \<Rightarrow> nat \<times> row \<Rightarrow> point option" where
  \<comment> \<open>the function mapped over the rows: a point, or \<open>null\<close>\<close>
  "comparisonPoint col1 col2 ir =
     (let val1 = snd ir col1; val2 = snd ir col2
      in if \<not> isNaN val1 \<and> \<not> isNaN val2 \<and> val1 \<noteq> Null \<and> val2 \<noteq> Null
         then Some [col1 \<mapsto> coerceNumber val1, col2 \<mapsto> coerceNumber val2,
                    ''index'' \<mapsto> indexNumber (fst ir)]
         else None)"

definition filterBoolean :: "'a option list \<Rightarrow> 'a list" where
  \<comment> \<open>\<open>.filter(Boolean)\<close> on an array of objects and \<open>null\<close>\<close>
  "filterBoolean xs = map the (filter (\<lambda>x. x \<noteq> None) xs)"

definition getComparisonData :: "row list \<Rightarrow> string \<Rightarrow> string \<Rightarrow> point list" where
  "getComparisonData data col1 col2 =
     filterBoolean (map (comparisonPoint col1 col2) (enumerate 0 (take 100 data)))"

section \<open>Notions used in the statements\<close>

definition columnValues :: "row list \<Rightarrow> string \<Rightarrow> cell list" where
  \<comment> \<open>the non-empty values of a column, as \<open>analyzeData\<close> collects them\<close>
  "columnValues csvData header = filter nonEmpty (map (\<lambda>row. row header) csvData)"

definition emptyRow :: row where
  \<comment> \<open>the object \<open>{}\<close>: every key is missing\<close>
  "emptyRow = (\<lambda>col. Undefined)"

definition pointValue :: "string \<Rightarrow> point \<Rightarrow> jsnum option" where
  \<comment> \<open>\<open>point[key]\<close>, \<open>None\<close> when the point has no such key\<close>
  "pointValue key p = p key"

definition comparisonKeeps :: "string \<Rightarrow> string \<Rightarrow> nat \<times> row \<Rightarrow> bool" where
  \<comment> \<open>the test of \<open>getComparisonData\<close> on a row (paired with its position)\<close>
  "comparisonKeeps col1 col2 ir =
     (\<not> isNaN (snd ir col1) \<and> \<not> isNaN (snd ir col2) \<and> snd ir col1 \<noteq> Null \<and> snd ir col2 \<noteq> Null)"

definition rowPosition :: "nat \<times> row \<Rightarrow> jsnum option" where
  \<comment> \<open>the 1-based position of a row, as a number\<close>
  "rowPosition ir = Some (Fin (of_nat (fst ir + 1)))"

definition categoricalColsOf :: "analysis option \<Rightarrow> (string \<times> categorical_profile) list" where
  \<comment> \<open>the categorical columns of a profile, in the order of \<open>Object.keys\<close>\<close>
  "categoricalColsOf a = (case a of None \<Rightarrow> [] | Some an \<Rightarrow> ownEntries (categorical an))"

definition numericColsOf :: "analysis option \<Rightarrow> string list" where
  \<comment> \<open>the numeric columns of a profile, in the order of \<open>Object.keys\<close>\<close>
  "numericColsOf a = (case a of None \<Rightarrow> [] | Some an \<Rightarrow> ownKeys (numeric an))"

definition uniqueBetween :: "nat \<Rightarrow> nat \<Rightarrow> string \<times> categorical_profile \<Rightarrow> bool" where
  "uniqueBetween lo hi e = (lo \<le> unique (snd e) \<and> unique (snd e) \<le> hi)"


definition tallyAll :: "string list \<Rightarrow> nat jsobj" where
  \<comment> \<open>the object \<open>freq\<close> after the keys have been counted one by one\<close>
  "tallyAll keys = foldl tally [] keys"



definition isDouble :: "jsnum \<Rightarrow> bool" where
  \<comment> \<open>a finite value is a double when rounding leaves it unchanged\<close>
  "isDouble x = (case x of Fin q \<Rightarrow> roundDouble q = Fin q | _ \<Rightarrow> True)"

(*DEFS-END*)

section \<open>Evaluating the conversions\<close>

lemma floor_rat_numeral_div: "\<lfloor>numeral a / numeral b :: rat\<rfloor> = numeral a div numeral b"
  using floor_divide_of_int_eq [of "numeral a" "numeral b", where ?'a = rat] by simp

lemma floor_rat_one_div: "\<lfloor>1 / numeral b :: rat\<rfloor> = 1 div numeral b"
  using floor_divide_of_int_eq [of 1 "numeral b", where ?'a = rat] by simp

lemmas num_eval = roundDouble_def roundMagnitude_def doubleSpacing_def doubleExponent_def floorLog_def digitCount.simps pow2_def pow10_def
  roundHalfEven_def Let_def floor_rat_numeral_div floor_rat_one_div

lemmas str_eval = isDigit_def isStrWhiteSpaceChar_def radixDigit_def isRadixDigit_def
  radixValue_def digitsValue_def exponentPart_def unsignedDecimalPrefix_def
  strDecimalPrefix_def nonDecimalIntegerLiteral_def trimStart_def trim_def
  stringToNumber_def parseFloat_def

lemma stringToNumber_42abc: "stringToNumber ''42abc'' = NaN"
  by (simp add: str_eval num_eval cong: let_weak_cong)

lemma parseFloat_42abc: "parseFloat ''42abc'' = Fin 42"
  by (simp add: str_eval num_eval cong: let_weak_cong)

lemma stringToNumber_7: "stringToNumber ''7'' = Fin 7"
  by (simp add: str_eval num_eval cong: let_weak_cong)

lemma parseFloat_7: "parseFloat ''7'' = Fin 7"
  by (simp add: str_eval num_eval cong: let_weak_cong)

lemma stringToNumber_9: "stringToNumber ''9'' = Fin 9"
  by (simp add: str_eval num_eval cong: let_weak_cong)

lemma parseFloat_9: "parseFloat ''9'' = Fin 9"
  by (simp add: str_eval num_eval cong: let_weak_cong)

lemma stringToNumber_empty: "stringToNumber [] = Fin 0"
  by (simp add: str_eval)

lemma parseFloat_empty: "parseFloat [] = NaN"
  by (simp add: str_eval)

lemma stringToNumber_space: "stringToNumber '' '' = Fin 0"
  by (simp add: str_eval)

lemma parseFloat_space: "parseFloat '' '' = NaN"
  by (simp add: str_eval)

lemma isNumericValue_42abc: "\<not> isNumericValue (Str ''42abc'')"
  by (simp add: isNumericValue_def isFinite_def isNaN_def numIsFinite_def numIsNaN_def
      stringToNumber_42abc)

lemma isNumericValue_7: "isNumericValue (Str ''7'')"
  by (simp add: isNumericValue_def isFinite_def isNaN_def numIsFinite_def numIsNaN_def
      stringToNumber_7 parseFloat_7)

lemma isNumericValue_9: "isNumericValue (Str ''9'')"
  by (simp add: isNumericValue_def isFinite_def isNaN_def numIsFinite_def numIsNaN_def
      stringToNumber_9 parseFloat_9)

section \<open>Classification of a column\<close>

text \<open>
  Claim C2. A string cell counts as numeric only when the whole string converts to a
  finite number (\<open>isFinite(v)\<close> applies \<open>Number\<close> to the whole string), so \<open>"42abc"\<close>
  does not count. A column is NUMERIC exactly when the number of numeric values is
  strictly greater than 0.5 times the number of non-empty values, and positive. A column
  whose non-empty values are \<open>["42abc", "7"]\<close> is CATEGORICAL (1 of 2), one whose
  non-empty values are \<open>["42abc", "7", "9"]\<close> is NUMERIC (2 of 3).
\<close>

theorem classify_threshold:
  "(isNumericValue (Str s) \<longrightarrow> numIsFinite (stringToNumber s))
   \<and> \<not> isNumericValue (Str ''42abc'')
   \<and> (classify cells = NUMERIC \<longleftrightarrow>
        (of_nat (length (filter nonEmpty cells)) :: rat) * (1 / 2)
          < of_nat (length (filter isNumericValue (filter nonEmpty cells)))
        \<and> 0 < length (filter isNumericValue (filter nonEmpty cells)))
   \<and> (filter nonEmpty cells1 = [Str ''42abc'', Str ''7''] \<longrightarrow> classify cells1 = CATEGORICAL)
   \<and> (filter nonEmpty cells2 = [Str ''42abc'', Str ''7'', Str ''9''] \<longrightarrow> classify cells2 = NUMERIC)"
proof -
  have a: "isNumericValue (Str s) \<longrightarrow> numIsFinite (stringToNumber s)"
    by (simp add: isNumericValue_def isFinite_def)
  have b: "classify cells = NUMERIC \<longleftrightarrow>
        (of_nat (length (filter nonEmpty cells)) :: rat) * (1 / 2)
          < of_nat (length (filter isNumericValue (filter nonEmpty cells)))
        \<and> 0 < length (filter isNumericValue (filter nonEmpty cells))"
    by (simp add: classify_def isNumericColumn_def Let_def)
  have c: "filter nonEmpty cells1 = [Str ''42abc'', Str ''7''] \<longrightarrow> classify cells1 = CATEGORICAL"
    by (simp add: classify_def isNumericColumn_def Let_def isNumericValue_42abc isNumericValue_7)
  have d: "filter nonEmpty cells2 = [Str ''42abc'', Str ''7'', Str ''9''] \<longrightarrow> classify cells2 = NUMERIC"
    by (simp add: classify_def isNumericColumn_def Let_def isNumericValue_42abc isNumericValue_7
        isNumericValue_9)
  from a b c d isNumericValue_42abc show ?thesis by blast
qed

theorem classify_threshold_witness:
  "isNumericValue (Str ''7'') \<and> numIsFinite (stringToNumber ''7'')
   \<and> filter nonEmpty [Null, Str ''42abc'', Str [], Str ''7''] = [Str ''42abc'', Str ''7'']
   \<and> classify [Null, Str ''42abc'', Str [], Str ''7''] = CATEGORICAL
   \<and> filter nonEmpty [Str ''42abc'', Undefined, Str ''7'', Str ''9'']
       = [Str ''42abc'', Str ''7'', Str ''9'']
   \<and> classify [Str ''42abc'', Undefined, Str ''7'', Str ''9''] = NUMERIC"
  using classify_threshold [of "''7''" "[]" "[Null, Str ''42abc'', Str [], Str ''7'']"
      "[Str ''42abc'', Undefined, Str ''7'', Str ''9'']"] isNumericValue_7
  by (simp add: nonEmpty_def)

text \<open>
  Claim C9. The classification of a column does not depend on the order of its cells:
  two columns that are permutations of each other (equal as multisets) get the same class.
\<close>

theorem classify_permutation:
  "mset cells = mset cells' \<Longrightarrow> classify cells = classify cells'"
proof -
  assume eq: "mset cells = mset cells'"
  have "mset (filter nonEmpty cells) = mset (filter nonEmpty cells')"
    using eq by (metis mset_filter)
  then have l1: "length (filter nonEmpty cells) = length (filter nonEmpty cells')"
    and l2: "length (filter isNumericValue (filter nonEmpty cells)) =
         length (filter isNumericValue (filter nonEmpty cells'))"
    by (metis size_mset, metis mset_filter size_mset)
  show ?thesis
    by (simp only: classify_def isNumericColumn_def Let_def l1 l2)
qed

theorem classify_permutation_witness:
  "mset [Str ''7'', Null, Str ''42abc'', Str ''9''] = mset [Str ''9'', Str ''42abc'', Null, Str ''7'']
   \<and> classify [Str ''7'', Null, Str ''42abc'', Str ''9''] = NUMERIC
   \<and> classify [Str ''9'', Str ''42abc'', Null, Str ''7''] = NUMERIC"
proof -
  have m: "mset [Str ''7'', Null, Str ''42abc'', Str ''9'']
      = mset [Str ''9'', Str ''42abc'', Null, Str ''7'']"
    by (simp add: add_mset_commute)
  have c: "classify [Str ''7'', Null, Str ''42abc'', Str ''9''] = NUMERIC"
    by (simp add: classify_def isNumericColumn_def nonEmpty_def isNumericValue_42abc
        isNumericValue_7 isNumericValue_9)
  from classify_permutation [OF m] m c show ?thesis by simp
qed

section \<open>The profiles produced by analyzeData\<close>

lemma objGet_Nil: "objGet [] h = None"
  by (simp add: objGet_def)

lemma objGet_objSet: "objGet (objSet obj k v) h = (if h = k then Some v else objGet obj h)"
  by (simp add: objGet_def objSet_def update_conv')

lemma analyzeHeader_fst:
  "objGet (fst (analyzeHeader d acc c)) h =
     (if h = c \<and> isNumericColumn (filter isNumericValue (columnValues d c)) (columnValues d c)
      then Some (numericProfile (filter isNumericValue (columnValues d c)))
      else objGet (fst acc) h)"
  by (simp add: analyzeHeader_def Let_def objGet_objSet columnValues_def)

lemma analyzeHeader_snd:
  "objGet (snd (analyzeHeader d acc c)) h =
     (if h = c \<and> \<not> isNumericColumn (filter isNumericValue (columnValues d c)) (columnValues d c)
      then Some (categoricalProfile (columnValues d c))
      else objGet (snd acc) h)"
  by (simp add: analyzeHeader_def Let_def objGet_objSet columnValues_def)

lemma foldl_analyzeHeader_fst:
  "objGet (fst (foldl (analyzeHeader d) acc cols)) h =
     (if h \<in> set cols \<and> isNumericColumn (filter isNumericValue (columnValues d h)) (columnValues d h)
      then Some (numericProfile (filter isNumericValue (columnValues d h)))
      else objGet (fst acc) h)"
  by (induction cols arbitrary: acc) (auto simp: analyzeHeader_fst)

lemma foldl_analyzeHeader_snd:
  "objGet (snd (foldl (analyzeHeader d) acc cols)) h =
     (if h \<in> set cols \<and> \<not> isNumericColumn (filter isNumericValue (columnValues d h)) (columnValues d h)
      then Some (categoricalProfile (columnValues d h))
      else objGet (snd acc) h)"
  by (induction cols arbitrary: acc) (auto simp: analyzeHeader_snd)

lemma categoricalProfile_Nil:
  "categoricalProfile [] = \<lparr> unique = 0, mostCommon = None, distribution = [], total_v = 0 \<rparr>"
  by (simp add: categoricalProfile_def ownKeys_def ownEntries_def sortedFreq_def sortBy_def)

text \<open>
  Claim C10. For a column of the dataset without any non-empty value, \<open>analyzeData\<close>
  stores a categorical profile with an empty distribution, \<open>unique\<close> 0, \<open>total\<close> 0 and no
  \<open>mostCommon\<close> entry (\<open>sortedFreq[0]\<close> of an empty array is \<open>undefined\<close>), and stores no
  numeric profile for it.
\<close>

theorem empty_column_profile:
  assumes "header \<in> set cols"
    and "filter nonEmpty (map (\<lambda>row. row header) csvData) = []"
  shows "objGet (categorical (analyzeData csvData cols)) header =
           Some \<lparr> unique = 0, mostCommon = None, distribution = [], total_v = 0 \<rparr>
         \<and> objGet (numeric (analyzeData csvData cols)) header = None"
proof -
  have v: "columnValues csvData header = []"
    using assms(2) by (simp add: columnValues_def)
  have n: "\<not> isNumericColumn (filter isNumericValue (columnValues csvData header))
             (columnValues csvData header)"
    by (simp add: v isNumericColumn_def)
  show ?thesis
    using assms(1) n
    by (simp add: analyzeData_def Let_def foldl_analyzeHeader_fst foldl_analyzeHeader_snd
        v categoricalProfile_Nil objGet_Nil)
qed

theorem empty_column_profile_witness:
  "''b'' \<in> set [''a'', ''b'']
   \<and> filter nonEmpty (map (\<lambda>row. row ''b'')
        [(\<lambda>c. Undefined)(''a'' := Str ''x'', ''b'' := Null),
         (\<lambda>c. Undefined)(''a'' := Str ''y'', ''b'' := Str [])]) = []
   \<and> objGet (categorical (analyzeData
        [(\<lambda>c. Undefined)(''a'' := Str ''x'', ''b'' := Null),
         (\<lambda>c. Undefined)(''a'' := Str ''y'', ''b'' := Str [])] [''a'', ''b''])) ''b'' =
           Some \<lparr> unique = 0, mostCommon = None, distribution = [], total_v = 0 \<rparr>
   \<and> objGet (numeric (analyzeData
        [(\<lambda>c. Undefined)(''a'' := Str ''x'', ''b'' := Null),
         (\<lambda>c. Undefined)(''a'' := Str ''y'', ''b'' := Str [])] [''a'', ''b''])) ''b'' = None"
  using empty_column_profile [of "''b''" "[''a'', ''b'']"
      "[(\<lambda>c. Undefined)(''a'' := Str ''x'', ''b'' := Null),
        (\<lambda>c. Undefined)(''a'' := Str ''y'', ''b'' := Str [])]"]
  by (simp add: nonEmpty_def)

section \<open>The comparison and line series\<close>

lemma filterBoolean_Nil: "filterBoolean [] = []"
  by (simp add: filterBoolean_def)

lemma filterBoolean_Cons:
  "filterBoolean (x # xs) = (case x of None \<Rightarrow> filterBoolean xs | Some p \<Rightarrow> p # filterBoolean xs)"
  by (simp add: filterBoolean_def split: option.split)

lemma comparisonPoint_index:
  "comparisonPoint col1 col2 ir = Some p \<Longrightarrow> pointValue ''index'' p = rowPosition ir"
  by (auto simp: comparisonPoint_def Let_def pointValue_def rowPosition_def indexNumber_def
      split: if_splits)

lemma comparisonPoint_None:
  "comparisonPoint col1 col2 ir = None \<longleftrightarrow> \<not> comparisonKeeps col1 col2 ir"
  by (simp add: comparisonPoint_def Let_def comparisonKeeps_def)

lemma comparison_indices_aux:
  "map (pointValue ''index'') (filterBoolean (map (comparisonPoint col1 col2) irs)) =
   map rowPosition (filter (comparisonKeeps col1 col2) irs)"
proof (induction irs)
  case Nil
  show ?case by (simp add: filterBoolean_Nil)
next
  case (Cons ir irs)
  show ?case
  proof (cases "comparisonPoint col1 col2 ir")
    case None
    then have "\<not> comparisonKeeps col1 col2 ir"
      using comparisonPoint_None [of col1 col2 ir] by simp
    then show ?thesis
      using Cons None by (simp add: filterBoolean_Cons)
  next
    case (Some p)
    then have "comparisonKeeps col1 col2 ir"
      using comparisonPoint_None [of col1 col2 ir] by simp
    then show ?thesis
      using Cons Some by (simp add: filterBoolean_Cons comparisonPoint_index)
  qed
qed

text \<open>
  Claim C1, as amended. The \<open>index\<close> of a point of the comparison series is computed
  before the filtering (\<open>index: idx + 1\<close> inside \<open>map\<close>): it is the 1-based position of
  the point's row among the first 100 rows of the dataset. The indices of the series are
  therefore the positions of the kept rows, in increasing order, with a gap wherever a row
  was dropped; they are not renumbered 1, 2, 3, ...
\<close>

theorem comparison_index_is_row_position:
  "map (pointValue ''index'') (getComparisonData data col1 col2) =
   map rowPosition (filter (comparisonKeeps col1 col2) (enumerate 0 (take 100 data)))"
  by (simp add: getComparisonData_def comparison_indices_aux)

lemma isNaN_Null: "\<not> isNaN Null"
  by (simp add: isNaN_def numIsNaN_def)

lemma isNaN_Num: "isNaN (Num x) \<longleftrightarrow> x = NaN"
  by (simp add: isNaN_def numIsNaN_def)

lemma isNaN_empty: "\<not> isNaN (Str [])"
  by (simp add: isNaN_def numIsNaN_def stringToNumber_empty)

lemma isNaN_space: "\<not> isNaN (Str '' '')"
  by (simp add: isNaN_def numIsNaN_def stringToNumber_space)

text \<open>
  The claim as stated fails on a dataset whose first row is dropped: the only point of
  the series carries the index 2.
\<close>

theorem comparison_index_counterexample:
  "map (pointValue ''index'')
     (getComparisonData
        [emptyRow(''a'' := Null, ''b'' := Num (Fin 1)),
         emptyRow(''a'' := Num (Fin 1), ''b'' := Num (Fin 2))] ''a'' ''b'') = [Some (Fin 2)]
   \<and> map (pointValue ''index'')
     (getComparisonData
        [emptyRow(''a'' := Null, ''b'' := Num (Fin 1)),
         emptyRow(''a'' := Num (Fin 1), ''b'' := Num (Fin 2))] ''a'' ''b'') \<noteq> [Some (Fin 1)]"
  by (simp add: getComparisonData_def enumerate_eq_zip comparisonPoint_def filterBoolean_Cons
      filterBoolean_Nil isNaN_Num isNaN_Null pointValue_def indexNumber_def emptyRow_def)

text \<open>
  Claim C3. \<open>getComparisonData\<close> tests \<open>!isNaN(val)\<close> and \<open>val !== null\<close> but, unlike
  \<open>getLineChartData\<close>, not \<open>val !== ""\<close>. \<open>isNaN("")\<close> is false (\<open>Number("")\<close> is 0), so
  a row with an empty cell is kept, and \<open>parseFloat("")\<close> puts \<open>NaN\<close> into the point.
\<close>

theorem comparison_empty_string_cell:
  "map (pointValue ''a'')
     (getComparisonData [emptyRow(''a'' := Str [], ''b'' := Num (Fin 1))] ''a'' ''b'') = [Some NaN]"
  by (simp add: getComparisonData_def enumerate_eq_zip comparisonPoint_def filterBoolean_Cons
      filterBoolean_Nil isNaN_Num isNaN_empty pointValue_def indexNumber_def emptyRow_def
      parseFloat_empty)

text \<open>
  Claim C8. \<open>getLineChartData\<close> admits a cell with \<open>!isNaN(val)\<close>, which converts the
  whole string with \<open>Number\<close>, and then stores \<open>parseFloat(val)\<close>. For a string of white
  space \<open>Number\<close> gives 0 and \<open>parseFloat\<close> gives \<open>NaN\<close>: the key is present and its value
  is \<open>NaN\<close>.
\<close>

theorem line_whitespace_cell:
  "map (pointValue ''a'') (getLineChartData [emptyRow(''a'' := Str '' '')] [''a'']) = [Some NaN]"
  by (simp add: getLineChartData_def enumerate_eq_zip linePointStep_def isNaN_space
      pointValue_def indexNumber_def emptyRow_def parseFloat_space)

text \<open>The comparison series has at most 100 points and at most one per row.\<close>

lemma getComparisonData_length:
  "length (getComparisonData data col1 col2) \<le> min 100 (length data)"
proof -
  have "length (getComparisonData data col1 col2) \<le> length (enumerate 0 (take 100 data))"
    unfolding getComparisonData_def filterBoolean_def
    by (metis length_filter_le length_map)
  then show ?thesis by simp
qed


section \<open>The chart plan\<close>

lemmas obj_eval = tallyAll_def tally_def objSet_def objGet_def sortedFreq_def sortBy_def
  ownEntries_def ownKeys_def isArrayIndex_def isDigit_def digitsValue_def radixValue_def radixDigit_def

lemma foldl_pushPie:
  "foldl pushPie acc es = acc @ map pieChart (filter (uniqueBetween 2 15) es)"
  by (induction es arbitrary: acc) (simp_all add: pushPie_def uniqueBetween_def)

lemma foldl_pushBar:
  "foldl pushBar acc es = acc @ map barChart (filter (uniqueBetween 2 20) es)"
  by (induction es arbitrary: acc) (simp_all add: pushBar_def uniqueBetween_def)

lemma slice0_take: "0 \<le> n \<Longrightarrow> slice0 n xs = take (nat n) xs"
  by (simp add: slice0_def)

lemma getBestChartsForData_eq:
  "getBestChartsForData a =
     take 6 (map pieChart (filter (uniqueBetween 2 15) (categoricalColsOf a)) @
             map barChart (filter (uniqueBetween 2 20) (categoricalColsOf a)) @
             (if 2 \<le> length (numericColsOf a)
              then [lineChart (numericColsOf a), comparisonChart (numericColsOf a)] else []))"
  by (simp add: getBestChartsForData_def Let_def foldl_pushPie foldl_pushBar slice0_take
      categoricalColsOf_def numericColsOf_def)

text \<open>
  Claim C5. The chart plan has at most 6 specs and is the first 6 elements of: one PIE
  spec per categorical column with \<open>unique\<close> between 2 and 15, then one BAR spec per
  categorical column with \<open>unique\<close> between 2 and 20, then, if there are at least 2 numeric
  columns, one LINE spec over the first 3 of them and one COMPARISON spec over the first 2.
  Columns are taken in the order in which \<open>Object.keys\<close> enumerates the profile. With
  fewer than 2 numeric columns the plan holds no LINE and no COMPARISON spec.
\<close>

theorem chart_plan:
  "length (getBestChartsForData a) \<le> 6
   \<and> getBestChartsForData a =
     take 6 (map pieChart (filter (uniqueBetween 2 15) (categoricalColsOf a)) @
             map barChart (filter (uniqueBetween 2 20) (categoricalColsOf a)) @
             (if 2 \<le> length (numericColsOf a)
              then [lineChart (numericColsOf a), comparisonChart (numericColsOf a)] else []))
   \<and> kind (pieChart e) = PIE \<and> column_of (pieChart e) = Some (fst e)
   \<and> kind (barChart e) = BAR \<and> column_of (barChart e) = Some (fst e)
   \<and> kind (lineChart cols) = LINE \<and> columns_of (lineChart cols) = Some (take 3 cols)
   \<and> kind (comparisonChart cols) = COMPARISON
   \<and> (2 \<le> length cols \<longrightarrow> columns_of (comparisonChart cols) = Some (take 2 cols))
   \<and> (length (numericColsOf a) < 2 \<longrightarrow>
        (\<forall>c \<in> set (getBestChartsForData a). kind c \<noteq> LINE \<and> kind c \<noteq> COMPARISON))"
proof -
  have len: "length (getBestChartsForData a) \<le> 6"
    by (simp add: getBestChartsForData_eq)
  have two: "2 \<le> length cols \<longrightarrow> columns_of (comparisonChart cols) = Some (take 2 cols)"
  proof
    assume "2 \<le> length cols"
    then obtain x y zs where "cols = x # y # zs"
      by (cases cols; cases "tl cols") auto
    then show "columns_of (comparisonChart cols) = Some (take 2 cols)"
      by (simp add: comparisonChart_def numeral_2_eq_2)
  qed
  have none: "length (numericColsOf a) < 2 \<longrightarrow>
        (\<forall>c \<in> set (getBestChartsForData a). kind c \<noteq> LINE \<and> kind c \<noteq> COMPARISON)"
  proof (intro impI ballI)
    fix c
    assume few: "length (numericColsOf a) < 2" and c: "c \<in> set (getBestChartsForData a)"
    from c have "c \<in> set (map pieChart (filter (uniqueBetween 2 15) (categoricalColsOf a)) @
             map barChart (filter (uniqueBetween 2 20) (categoricalColsOf a)))"
      using few by (auto simp: getBestChartsForData_eq dest: in_set_takeD)
    then show "kind c \<noteq> LINE \<and> kind c \<noteq> COMPARISON"
      by (auto simp: pieChart_def barChart_def)
  qed
  have kinds: "kind (pieChart e) = PIE \<and> column_of (pieChart e) = Some (fst e)
      \<and> kind (barChart e) = BAR \<and> column_of (barChart e) = Some (fst e)
      \<and> kind (lineChart cols) = LINE \<and> columns_of (lineChart cols) = Some (take 3 cols)
      \<and> kind (comparisonChart cols) = COMPARISON"
    by (simp add: pieChart_def barChart_def lineChart_def comparisonChart_def)
  from len getBestChartsForData_eq [of a] kinds two none show ?thesis
    by blast
qed

theorem chart_plan_witness:
  "length (numericColsOf (Some \<lparr> totalRows = 3, totalColumns = 3,
      numeric = [(''salary'', \<lparr> mean = ''116.67'', median = ''100.00'', min_v = ''50.00'',
         max_v = ''200.00'', sum_v = ''350.00'', count_v = 3 \<rparr>)],
      categorical = [(''dept'', \<lparr> unique = 2, mostCommon = Some (''eng'', 2),
           distribution = [(''eng'', 2), (''sales'', 1)], total_v = 3 \<rparr>),
         (''city'', \<lparr> unique = 18, mostCommon = None, distribution = [], total_v = 3 \<rparr>)] \<rparr>)) < 2
   \<and> map kind (getBestChartsForData (Some \<lparr> totalRows = 3, totalColumns = 3,
      numeric = [(''salary'', \<lparr> mean = ''116.67'', median = ''100.00'', min_v = ''50.00'',
         max_v = ''200.00'', sum_v = ''350.00'', count_v = 3 \<rparr>)],
      categorical = [(''dept'', \<lparr> unique = 2, mostCommon = Some (''eng'', 2),
           distribution = [(''eng'', 2), (''sales'', 1)], total_v = 3 \<rparr>),
         (''city'', \<lparr> unique = 18, mostCommon = None, distribution = [], total_v = 3 \<rparr>)] \<rparr>))
       = [PIE, BAR, BAR]
   \<and> 2 \<le> length [''a'', ''b'', ''c'', ''d'']
   \<and> columns_of (comparisonChart [''a'', ''b'', ''c'', ''d'']) = Some [''a'', ''b'']
   \<and> columns_of (lineChart [''a'', ''b'', ''c'', ''d'']) = Some [''a'', ''b'', ''c'']"
  using chart_plan [of "Some \<lparr> totalRows = 3, totalColumns = 3,
      numeric = [(''salary'', \<lparr> mean = ''116.67'', median = ''100.00'', min_v = ''50.00'',
         max_v = ''200.00'', sum_v = ''350.00'', count_v = 3 \<rparr>)],
      categorical = [(''dept'', \<lparr> unique = 2, mostCommon = Some (''eng'', 2),
           distribution = [(''eng'', 2), (''sales'', 1)], total_v = 3 \<rparr>),
         (''city'', \<lparr> unique = 18, mostCommon = None, distribution = [], total_v = 3 \<rparr>)] \<rparr>"
      "(''dept'', \<lparr> unique = 2, mostCommon = Some (''eng'', 2),
           distribution = [(''eng'', 2), (''sales'', 1)], total_v = 3 \<rparr>)"
      "[''a'', ''b'', ''c'', ''d'']"]
  by (simp add: categoricalColsOf_def numericColsOf_def uniqueBetween_def obj_eval pieChart_def
      barChart_def)

section \<open>Ties in the frequency tables\<close>


































section \<open>Percentages of the frequency projection\<close>

lemmas print_eval = toFixed_def decString.simps digitChar_def


lemma percentageOf_1_3: "percentageOf 1 3 = ''33.3''"
  by (simp add: percentageOf_def print_eval num_eval cong: let_weak_cong)












section \<open>Statistics of a numeric column\<close>


































end
